theory Spec2Isabelle
  imports Main "HOL-Library.Word" "HOL-Library.Sublist"
begin

unbundle bit_operations_syntax

section \<open>The canonical sandbox event (Sandbox/Linux/SandboxEvent.h)\<close>

subsection \<open>Data model\<close>

text \<open>
  The scalar C types of the header are 32-bit words: \<open>int\<close> and \<open>pid_t\<close> are read
  as two's complement (\<open>sint\<close>, so that \<open>- 1\<close> is the word of all ones), \<open>uint\<close> and
  \<open>mode_t\<close> as unsigned. \<open>es_event_type_t\<close> is an enum declared in a
  header outside this file; an event kind is represented by its integer value.
  A \<open>const char *\<close> argument is a \<open>string option\<close>: \<open>None\<close> is \<open>nullptr\<close>, and
  \<open>Some s\<close> points to the characters \<open>s\<close> that precede the terminating NUL, so that
  \<open>p[0] == '\0'\<close> is \<open>s = []\<close>.
\<close>

type_synonym c_int = "32 word"
type_synonym pid_t = "32 word"
type_synonym uint = "32 word"
type_synonym mode_t = "32 word"
type_synonym es_event_type_t = "32 word"

datatype SandboxEventPathType = kAbsolutePaths | kRelativePaths | kFileDescriptors

datatype RequiredPathResolution = kFullyResolve | kResolveNoFollow | kDoNotResolve

text \<open>
  The fields of \<open>class SandboxEvent\<close>, in the order of their declaration. The names
  are the source's without the trailing underscore.
\<close>

record SandboxEvent =
  event_type :: es_event_type_t
  path_type :: SandboxEventPathType
  src_path :: string
  dst_path :: string
  src_fd :: c_int
  dst_fd :: c_int
  pid :: pid_t
  child_pid :: pid_t
  required_path_resolution :: RequiredPathResolution
  mode :: mode_t
  error :: uint
  is_valid :: bool
  is_sealed :: bool

text \<open>
  \<open>assert(c)\<close> aborts the program when \<open>c\<close> is false. A member function with
  assertions returns \<open>Inl\<close> of the assertion that failed, or \<open>Inr\<close> of its result.
\<close>

datatype assertion_failure = Assert_is_valid | Assert_not_is_sealed

text \<open>
  \<open>AT_FDCWD\<close> comes from \<open><fcntl.h>\<close>; on Linux it is \<open>-100\<close>.
  \<open>S_ISDIR(m)\<close> comes from \<open><sys/stat.h>\<close>: \<open>(m & S_IFMT) == S_IFDIR\<close> with
  \<open>S_IFMT = 0170000\<close> and \<open>S_IFDIR = 0040000\<close> (octal).
\<close>

definition AT_FDCWD :: c_int where
  "AT_FDCWD = - 100"

definition S_ISDIR :: "mode_t \<Rightarrow> bool" where
  "S_ISDIR m = (m AND 0xF000 = 0x4000)"

subsection \<open>Constructors\<close>

text \<open>
  The private default constructor initialises \<open>is_valid_\<close> and \<open>is_sealed_\<close> only;
  the two strings are default-constructed (empty) and the scalar fields are left
  uninitialised. The model fixes the uninitialised fields to \<open>0\<close> and to the first
  enumerator; every accessor asserts validity before it reads a field.
\<close>

definition Invalid :: SandboxEvent where
  "Invalid =
     \<lparr> event_type = 0, path_type = kAbsolutePaths, src_path = [], dst_path = [],
       src_fd = 0, dst_fd = 0, pid = 0, child_pid = 0,
       required_path_resolution = kFullyResolve, mode = 0, error = 0,
       is_valid = False, is_sealed = False \<rparr>"

text \<open>The private nine-argument constructor.\<close>

definition SandboxEvent_ctor ::
  "es_event_type_t \<Rightarrow> string \<Rightarrow> string \<Rightarrow> c_int \<Rightarrow> c_int \<Rightarrow> pid_t \<Rightarrow> pid_t \<Rightarrow> uint
     \<Rightarrow> SandboxEventPathType \<Rightarrow> SandboxEvent" where
  "SandboxEvent_ctor et sp dp sfd dfd p cp err pt =
     \<lparr> event_type = et, path_type = pt, src_path = sp, dst_path = dp,
       src_fd = sfd, dst_fd = dfd, pid = p, child_pid = cp,
       required_path_resolution = kFullyResolve, mode = 0, error = err,
       is_valid = True, is_sealed = False \<rparr>"

text \<open>
  \<open>ForkSandboxEvent\<close>; the enumerator \<open>ES_EVENT_TYPE_NOTIFY_FORK\<close> is declared outside
  this file and is the first parameter.
\<close>

definition ForkSandboxEvent :: "es_event_type_t \<Rightarrow> pid_t \<Rightarrow> pid_t \<Rightarrow> string \<Rightarrow> SandboxEvent" where
  "ForkSandboxEvent ES_EVENT_TYPE_NOTIFY_FORK p cp path =
     SandboxEvent_ctor ES_EVENT_TYPE_NOTIFY_FORK path [] (- 1) (- 1) p cp 0 kAbsolutePaths"

definition RelativePathSandboxEvent ::
  "es_event_type_t \<Rightarrow> pid_t \<Rightarrow> uint \<Rightarrow> string option \<Rightarrow> c_int \<Rightarrow> string option \<Rightarrow> c_int
     \<Rightarrow> SandboxEvent" where
  "RelativePathSandboxEvent et p err src_path_arg src_fd_arg dst_path_arg dst_fd_arg =
     (case (src_path_arg, dst_path_arg) of
        (Some sp, Some dp) \<Rightarrow>
          SandboxEvent_ctor et sp dp src_fd_arg dst_fd_arg p 0 err kRelativePaths
      | _ \<Rightarrow> Invalid)"

definition AbsolutePathSandboxEvent ::
  "es_event_type_t \<Rightarrow> pid_t \<Rightarrow> uint \<Rightarrow> string option \<Rightarrow> string option \<Rightarrow> SandboxEvent" where
  "AbsolutePathSandboxEvent et p err src_path_arg dst_path_arg =
     (case (src_path_arg, dst_path_arg) of
        (Some sp, Some dp) \<Rightarrow>
          (let is_src_relative = (sp = [] \<or> hd sp \<noteq> CHR ''/'');
               is_dst_relative = (dp \<noteq> [] \<and> hd dp \<noteq> CHR ''/'')
           in if is_src_relative \<or> is_dst_relative
              then RelativePathSandboxEvent et p err
                     (Some sp) (if is_src_relative then AT_FDCWD else - 1)
                     (Some dp) (if is_dst_relative then AT_FDCWD else - 1)
              else SandboxEvent_ctor et sp dp (- 1) (- 1) p 0 err kAbsolutePaths)
      | _ \<Rightarrow> Invalid)"

definition FileDescriptorSandboxEvent ::
  "es_event_type_t \<Rightarrow> pid_t \<Rightarrow> uint \<Rightarrow> c_int \<Rightarrow> c_int \<Rightarrow> SandboxEvent" where
  "FileDescriptorSandboxEvent et p err src_fd_arg dst_fd_arg =
     SandboxEvent_ctor et [] [] src_fd_arg dst_fd_arg p 0 err kFileDescriptors"

subsection \<open>Getters\<close>

text \<open>\<open>IsValid\<close> is declared with return type \<open>pid_t\<close>: the flag converts to 0 or 1.\<close>

definition IsValid :: "SandboxEvent \<Rightarrow> pid_t" where
  "IsValid e = (if is_valid e then 1 else 0)"

definition GetPid :: "SandboxEvent \<Rightarrow> assertion_failure + pid_t" where
  "GetPid e = (if is_valid e then Inr (pid e) else Inl Assert_is_valid)"

definition GetChildPid :: "SandboxEvent \<Rightarrow> assertion_failure + pid_t" where
  "GetChildPid e = (if is_valid e then Inr (child_pid e) else Inl Assert_is_valid)"

definition GetEventType :: "SandboxEvent \<Rightarrow> assertion_failure + es_event_type_t" where
  "GetEventType e = (if is_valid e then Inr (event_type e) else Inl Assert_is_valid)"

definition GetMode :: "SandboxEvent \<Rightarrow> assertion_failure + mode_t" where
  "GetMode e = (if is_valid e then Inr (mode e) else Inl Assert_is_valid)"

definition GetSrcPath :: "SandboxEvent \<Rightarrow> assertion_failure + string" where
  "GetSrcPath e = (if is_valid e then Inr (src_path e) else Inl Assert_is_valid)"

definition GetDstPath :: "SandboxEvent \<Rightarrow> assertion_failure + string" where
  "GetDstPath e = (if is_valid e then Inr (dst_path e) else Inl Assert_is_valid)"

definition GetSrcFd :: "SandboxEvent \<Rightarrow> assertion_failure + c_int" where
  "GetSrcFd e = (if is_valid e then Inr (src_fd e) else Inl Assert_is_valid)"

definition GetDstFd :: "SandboxEvent \<Rightarrow> assertion_failure + c_int" where
  "GetDstFd e = (if is_valid e then Inr (dst_fd e) else Inl Assert_is_valid)"

definition GetError :: "SandboxEvent \<Rightarrow> assertion_failure + uint" where
  "GetError e = (if is_valid e then Inr (error e) else Inl Assert_is_valid)"

definition GetPathType :: "SandboxEvent \<Rightarrow> assertion_failure + SandboxEventPathType" where
  "GetPathType e = (if is_valid e then Inr (path_type e) else Inl Assert_is_valid)"

definition GetRequiredPathResolution :: "SandboxEvent \<Rightarrow> assertion_failure + RequiredPathResolution" where
  "GetRequiredPathResolution e =
     (if is_valid e then Inr (required_path_resolution e) else Inl Assert_is_valid)"

definition IsDirectory :: "SandboxEvent \<Rightarrow> assertion_failure + bool" where
  "IsDirectory e = (if is_valid e then Inr (S_ISDIR (mode e)) else Inl Assert_is_valid)"

subsection \<open>Sealing and setters\<close>

definition Seal :: "SandboxEvent \<Rightarrow> SandboxEvent" where
  "Seal e = e\<lparr>is_sealed := True\<rparr>"

definition SetMode :: "SandboxEvent \<Rightarrow> mode_t \<Rightarrow> assertion_failure + SandboxEvent" where
  "SetMode e m =
     (if \<not> is_valid e then Inl Assert_is_valid
      else if is_sealed e then Inl Assert_not_is_sealed
      else Inr (e\<lparr>mode := m\<rparr>))"

definition SetRequiredPathResolution ::
  "SandboxEvent \<Rightarrow> RequiredPathResolution \<Rightarrow> assertion_failure + SandboxEvent" where
  "SetRequiredPathResolution e r =
     (if \<not> is_valid e then Inl Assert_is_valid
      else if is_sealed e then Inl Assert_not_is_sealed
      else Inr (e\<lparr>required_path_resolution := r\<rparr>))"

text \<open>
  \<open>SetResolvedPaths\<close> takes its two arguments as \<open>const std::string&\<close>. A reference
  can refer to the event's own \<open>src_path_\<close> or \<open>dst_path_\<close> (\<open>GetSrcPath\<close> and
  \<open>GetDstPath\<close> return such references) or to a string outside the event, and it is
  read when the assignment that uses it runs, so after earlier assignments.
\<close>

datatype string_ref = Ref_own_src_path | Ref_own_dst_path | Ref_other string

fun deref :: "SandboxEvent \<Rightarrow> string_ref \<Rightarrow> string" where
  "deref e Ref_own_src_path = src_path e"
| "deref e Ref_own_dst_path = dst_path e"
| "deref e (Ref_other s) = s"

text \<open>
  The assignments run in the source's order: \<open>src_path_\<close> is written first, and the
  destination argument is read after that.
\<close>

definition SetResolvedPaths ::
  "SandboxEvent \<Rightarrow> string_ref \<Rightarrow> string_ref \<Rightarrow> assertion_failure + SandboxEvent" where
  "SetResolvedPaths e src_path_arg dst_path_arg =
     (if \<not> is_valid e then Inl Assert_is_valid
      else if is_sealed e then Inl Assert_not_is_sealed
      else
        (let e1 = e\<lparr>src_path := deref e src_path_arg\<rparr>;
             e2 = e1\<lparr>dst_path := deref e1 dst_path_arg\<rparr>;
             e3 = e2\<lparr>src_fd := - 1\<rparr>;
             e4 = e3\<lparr>dst_fd := - 1\<rparr>;
             e5 = e4\<lparr>required_path_resolution := kDoNotResolve\<rparr>
         in Inr (e5\<lparr>path_type := kAbsolutePaths\<rparr>)))"

section \<open>The access handler (MacOs/Interop/Sandbox/Handlers/AccessHandler.hpp)\<close>

subsection \<open>Declarations of the header\<close>

datatype ReportResult = kReported | kSkipped | kFailed

definition kDataPartitionPrefix :: string where
  "kDataPartitionPrefix = ''/System/Volumes/Data/''"

definition kAdjustedPrefixLength :: nat where
  "kAdjustedPrefixLength = length ''/System/Volumes/Data''"

text \<open>
  The types \<open>FileOperation\<close>, \<open>PolicyResult\<close>, \<open>AccessCheckResult\<close>, \<open>CheckFunc\<close> and
  \<open>es_message_t\<close> are declared in headers outside this file; they are the type
  parameters \<open>'op\<close>, \<open>'policy\<close>, \<open>'result\<close> and \<open>'msg\<close>, and a checker is a function
  from the operation, the policy and the directory flag to an access-check result.
  The collaborators of the handler are parameters: the policy index behind
  \<open>PolicyForPath\<close>, the report sink behind \<open>ReportFileOpAccess\<close>, and the process id
  that a message carries.
\<close>

type_synonym ('op, 'policy, 'result) CheckFunc = "'op \<Rightarrow> 'policy \<Rightarrow> bool \<Rightarrow> 'result"

record ('op, 'policy, 'result, 'msg) collaborators =
  PolicyForPath :: "string \<Rightarrow> 'policy"
  ReportFileOpAccess :: "'op \<Rightarrow> 'policy \<Rightarrow> 'result \<Rightarrow> pid_t \<Rightarrow> ReportResult"
  message_pid :: "'msg \<Rightarrow> pid_t"

text \<open>
  What a call does beyond returning a decision: a lookup in the policy index for a
  path, and an invocation of the reporting operation.
\<close>

datatype ('op, 'policy, 'result) effect =
  PolicyLookup string
| ReportEmitted 'op 'policy 'result pid_t

text \<open>
  The state of a pip that the handler of a bound process works on: the cache of
  decided accesses, keyed by operation and canonical path (the header's comment gives
  the key as \<open>"<operation>,<path>"\<close>), and the effects performed so far.
\<close>

record ('op, 'policy, 'result) pip_state =
  cache :: "('op \<times> string) \<rightharpoonup> ('result \<times> ReportResult)"
  effects :: "('op, 'policy, 'result) effect list"

subsection \<open>Canonicalization\<close>

text \<open>
  Modelled from the spec: the body of \<open>IgnoreDataPartitionPrefix\<close>, which the header
  declares and does not define. The spec has it strip the overlay-mount prefix from an
  absolute path; the two constants are the header's: a path is recognised by
  \<open>kDataPartitionPrefix\<close> (with its final separator) and loses
  \<open>kAdjustedPrefixLength\<close> characters (the prefix without it), so that the result
  begins with a separator again.
\<close>

definition IgnoreDataPartitionPrefix :: "string \<Rightarrow> string" where
  "IgnoreDataPartitionPrefix path =
     (if prefix kDataPartitionPrefix path then drop kAdjustedPrefixLength path else path)"

subsection \<open>Checking and reporting\<close>

text \<open>
  Modelled from the spec: the body of \<open>CheckAndReportInternal\<close>, which the header
  declares and does not define. The steps are those of the spec: canonicalize the
  path; build the key from the operation and the canonical path; on a cached key
  return the cached decision and do nothing else; otherwise look the policy up, apply
  the checker, invoke the reporting operation with operation, policy, decision and
  process id, cache the outcome whatever the report result is, and return the decision.
\<close>

definition CheckAndReportInternal ::
  "('op, 'policy, 'result, 'msg) collaborators \<Rightarrow> ('op, 'policy, 'result) pip_state
     \<Rightarrow> 'op \<Rightarrow> string \<Rightarrow> ('op, 'policy, 'result) CheckFunc \<Rightarrow> 'msg \<Rightarrow> bool
     \<Rightarrow> 'result \<times> ('op, 'policy, 'result) pip_state" where
  "CheckAndReportInternal env s operation path checker msg isDir =
     (let canonical = IgnoreDataPartitionPrefix path;
          key = (operation, canonical)
      in case cache s key of
           Some (decision, outcome) \<Rightarrow> (decision, s)
         | None \<Rightarrow>
             (let policy = PolicyForPath env canonical;
                  decision = checker operation policy isDir;
                  processID = message_pid env msg;
                  outcome = ReportFileOpAccess env operation policy decision processID
              in (decision,
                  s\<lparr>cache := (cache s)(key \<mapsto> (decision, outcome)),
                    effects := effects s @
                      [PolicyLookup canonical,
                       ReportEmitted operation policy decision processID]\<rparr>)))"

text \<open>The two inline overloads of \<open>CheckAndReport\<close>, as the header defines them.\<close>

definition CheckAndReport ::
  "('op, 'policy, 'result, 'msg) collaborators \<Rightarrow> ('op, 'policy, 'result) pip_state
     \<Rightarrow> 'op \<Rightarrow> string \<Rightarrow> ('op, 'policy, 'result) CheckFunc \<Rightarrow> 'msg
     \<Rightarrow> 'result \<times> ('op, 'policy, 'result) pip_state" where
  "CheckAndReport env s operation path checker msg =
     CheckAndReportInternal env s operation path checker msg False"

definition CheckAndReport_isDir ::
  "('op, 'policy, 'result, 'msg) collaborators \<Rightarrow> ('op, 'policy, 'result) pip_state
     \<Rightarrow> 'op \<Rightarrow> string \<Rightarrow> ('op, 'policy, 'result) CheckFunc \<Rightarrow> 'msg \<Rightarrow> bool
     \<Rightarrow> 'result \<times> ('op, 'policy, 'result) pip_state" where
  "CheckAndReport_isDir env s operation path checker msg isDir =
     CheckAndReportInternal env s operation path checker msg isDir"

text \<open>
  A sequence of calls on one pip: each call is the tuple of its arguments, and the
  state of the pip is threaded through them in order.
\<close>

type_synonym ('op, 'policy, 'result, 'msg) call =
  "'op \<times> string \<times> ('op, 'policy, 'result) CheckFunc \<times> 'msg \<times> bool"

fun run_calls ::
  "('op, 'policy, 'result, 'msg) collaborators \<Rightarrow> ('op, 'policy, 'result) pip_state
     \<Rightarrow> ('op, 'policy, 'result, 'msg) call list
     \<Rightarrow> 'result list \<times> ('op, 'policy, 'result) pip_state" where
  "run_calls env s [] = ([], s)"
| "run_calls env s ((operation, path, checker, msg, isDir) # cs) =
     (let (d, s') = CheckAndReportInternal env s operation path checker msg isDir;
          (ds, s'') = run_calls env s' cs
      in (d # ds, s''))"

section \<open>Properties of the canonical event\<close>

text \<open>
  C3, as the code has it. On every valid event \<open>SetResolvedPaths\<close> either is
  rejected, exactly when the event is sealed, or returns an event whose path kind is
  \<open>kAbsolutePaths\<close>, whose required resolution is \<open>kDoNotResolve\<close> and whose two
  file-descriptor fields are \<open>-1\<close>. Its source path is the source argument, and its
  destination path is the destination argument unless that argument refers to the
  event's own source path. A second call with the same arguments returns the same
  event, provided the source argument does not refer to the event's own destination
  path. The returned event is not sealed, and \<open>SetRequiredPathResolution\<close> still
  sets its requirement to any value.
\<close>

theorem SetResolvedPaths_postcondition:
  "is_valid e \<Longrightarrow>
     (case SetResolvedPaths e sr dr of
        Inl a \<Rightarrow> is_sealed e \<and> a = Assert_not_is_sealed
      | Inr e' \<Rightarrow>
          \<not> is_sealed e
          \<and> GetPathType e' = Inr kAbsolutePaths
          \<and> GetRequiredPathResolution e' = Inr kDoNotResolve
          \<and> GetSrcFd e' = Inr (- 1) \<and> GetDstFd e' = Inr (- 1)
          \<and> GetSrcPath e' = Inr (deref e sr)
          \<and> (dr \<noteq> Ref_own_src_path \<longrightarrow> GetDstPath e' = Inr (deref e dr))
          \<and> (sr \<noteq> Ref_own_dst_path \<longrightarrow> SetResolvedPaths e' sr dr = Inr e')
          \<and> SetRequiredPathResolution e' r = Inr (e'\<lparr>required_path_resolution := r\<rparr>))"
  by (cases sr; cases dr)
     (simp_all add: SetResolvedPaths_def SetRequiredPathResolution_def GetPathType_def
        GetRequiredPathResolution_def GetSrcFd_def GetDstFd_def GetSrcPath_def GetDstPath_def)

theorem SetResolvedPaths_postcondition_witness:
  "is_valid (RelativePathSandboxEvent 1 7 0 (Some ''a/b'') 3 (Some ''c'') 4)
   \<and> SetResolvedPaths (RelativePathSandboxEvent 1 7 0 (Some ''a/b'') 3 (Some ''c'') 4)
        (Ref_other ''/r/a/b'') (Ref_other ''/r/c'')
      = Inr (SandboxEvent_ctor 1 ''/r/a/b'' ''/r/c'' (- 1) (- 1) 7 0 0 kAbsolutePaths
               \<lparr>required_path_resolution := kDoNotResolve\<rparr>)
   \<and> SetResolvedPaths
        (SandboxEvent_ctor 1 ''/r/a/b'' ''/r/c'' (- 1) (- 1) 7 0 0 kAbsolutePaths
           \<lparr>required_path_resolution := kDoNotResolve\<rparr>)
        (Ref_other ''/r/a/b'') (Ref_other ''/r/c'')
      = Inr (SandboxEvent_ctor 1 ''/r/a/b'' ''/r/c'' (- 1) (- 1) 7 0 0 kAbsolutePaths
               \<lparr>required_path_resolution := kDoNotResolve\<rparr>)"
  using SetResolvedPaths_postcondition
    [of "RelativePathSandboxEvent 1 7 0 (Some ''a/b'') 3 (Some ''c'') 4"
        "Ref_other ''/r/a/b''" "Ref_other ''/r/c''" kFullyResolve]
  by (simp add: RelativePathSandboxEvent_def SandboxEvent_ctor_def SetResolvedPaths_def)

text \<open>
  C3, as the claim states it, fails on the relative-path event with paths \<open>a\<close> and
  \<open>b\<close>. After \<open>SetResolvedPaths\<close> with \<open>/r/a\<close> and \<open>/r/b\<close> the event is valid and
  unsealed, so re-resolution is possible: \<open>SetRequiredPathResolution\<close> puts the
  requirement back to \<open>kFullyResolve\<close>, and another \<open>SetResolvedPaths\<close> replaces the
  paths. And a repeated call with the same arguments changes the state when the source
  argument refers to the event's own destination path: the first call gives the paths
  \<open>b\<close> and \<open>c\<close>, the second \<open>c\<close> and \<open>c\<close>.
\<close>

theorem SetResolvedPaths_claim_counterexample:
  "SetResolvedPaths (RelativePathSandboxEvent 1 7 0 (Some ''a'') 3 (Some ''b'') 4)
        (Ref_other ''/r/a'') (Ref_other ''/r/b'')
      = Inr (SandboxEvent_ctor 1 ''/r/a'' ''/r/b'' (- 1) (- 1) 7 0 0 kAbsolutePaths
               \<lparr>required_path_resolution := kDoNotResolve\<rparr>)
   \<and> SetRequiredPathResolution
        (SandboxEvent_ctor 1 ''/r/a'' ''/r/b'' (- 1) (- 1) 7 0 0 kAbsolutePaths
           \<lparr>required_path_resolution := kDoNotResolve\<rparr>)
        kFullyResolve
      = Inr (SandboxEvent_ctor 1 ''/r/a'' ''/r/b'' (- 1) (- 1) 7 0 0 kAbsolutePaths)
   \<and> GetRequiredPathResolution
        (SandboxEvent_ctor 1 ''/r/a'' ''/r/b'' (- 1) (- 1) 7 0 0 kAbsolutePaths)
      = Inr kFullyResolve
   \<and> SetResolvedPaths
        (SandboxEvent_ctor 1 ''/r/a'' ''/r/b'' (- 1) (- 1) 7 0 0 kAbsolutePaths
           \<lparr>required_path_resolution := kDoNotResolve\<rparr>)
        (Ref_other ''/x'') (Ref_other ''/y'')
      = Inr (SandboxEvent_ctor 1 ''/x'' ''/y'' (- 1) (- 1) 7 0 0 kAbsolutePaths
               \<lparr>required_path_resolution := kDoNotResolve\<rparr>)
   \<and> SetResolvedPaths (RelativePathSandboxEvent 1 7 0 (Some ''a'') 3 (Some ''b'') 4)
        Ref_own_dst_path (Ref_other ''c'')
      = Inr (SandboxEvent_ctor 1 ''b'' ''c'' (- 1) (- 1) 7 0 0 kAbsolutePaths
               \<lparr>required_path_resolution := kDoNotResolve\<rparr>)
   \<and> SetResolvedPaths
        (SandboxEvent_ctor 1 ''b'' ''c'' (- 1) (- 1) 7 0 0 kAbsolutePaths
           \<lparr>required_path_resolution := kDoNotResolve\<rparr>)
        Ref_own_dst_path (Ref_other ''c'')
      = Inr (SandboxEvent_ctor 1 ''c'' ''c'' (- 1) (- 1) 7 0 0 kAbsolutePaths
               \<lparr>required_path_resolution := kDoNotResolve\<rparr>)
   \<and> SandboxEvent_ctor 1 ''c'' ''c'' (- 1) (- 1) 7 0 0 kAbsolutePaths
         \<lparr>required_path_resolution := kDoNotResolve\<rparr>
       \<noteq> SandboxEvent_ctor 1 ''b'' ''c'' (- 1) (- 1) 7 0 0 kAbsolutePaths
           \<lparr>required_path_resolution := kDoNotResolve\<rparr>"
  by (simp add: SetResolvedPaths_def SetRequiredPathResolution_def
      GetRequiredPathResolution_def RelativePathSandboxEvent_def SandboxEvent_ctor_def)

text \<open>
  C4. When both pointers are non-null and the source is empty or does not begin with
  \<open>/\<close>, or the destination is non-empty and does not begin with \<open>/\<close>,
  \<open>AbsolutePathSandboxEvent\<close> returns what \<open>RelativePathSandboxEvent\<close> returns for the
  same paths. The event is valid, its path kind is \<open>kRelativePaths\<close>, it carries the
  two paths, the event kind, the process id and the error as given, and the root
  handle of each path is \<open>AT_FDCWD\<close> when that path is classified relative and \<open>-1\<close>
  otherwise, so both handles are \<open>AT_FDCWD\<close> when both paths are relative; \<open>AT_FDCWD\<close>
  differs from \<open>-1\<close>.
\<close>

theorem AbsolutePath_relative_redirect:
  "(sp = [] \<or> hd sp \<noteq> CHR ''/'') \<or> (dp \<noteq> [] \<and> hd dp \<noteq> CHR ''/'') \<Longrightarrow>
     AbsolutePathSandboxEvent et p err (Some sp) (Some dp) =
       RelativePathSandboxEvent et p err
         (Some sp) (if sp = [] \<or> hd sp \<noteq> CHR ''/'' then AT_FDCWD else - 1)
         (Some dp) (if dp \<noteq> [] \<and> hd dp \<noteq> CHR ''/'' then AT_FDCWD else - 1)
     \<and> IsValid (AbsolutePathSandboxEvent et p err (Some sp) (Some dp)) = 1
     \<and> GetPathType (AbsolutePathSandboxEvent et p err (Some sp) (Some dp)) = Inr kRelativePaths
     \<and> GetSrcFd (AbsolutePathSandboxEvent et p err (Some sp) (Some dp)) =
         Inr (if sp = [] \<or> hd sp \<noteq> CHR ''/'' then AT_FDCWD else - 1)
     \<and> GetDstFd (AbsolutePathSandboxEvent et p err (Some sp) (Some dp)) =
         Inr (if dp \<noteq> [] \<and> hd dp \<noteq> CHR ''/'' then AT_FDCWD else - 1)
     \<and> GetSrcPath (AbsolutePathSandboxEvent et p err (Some sp) (Some dp)) = Inr sp
     \<and> GetDstPath (AbsolutePathSandboxEvent et p err (Some sp) (Some dp)) = Inr dp
     \<and> GetEventType (AbsolutePathSandboxEvent et p err (Some sp) (Some dp)) = Inr et
     \<and> GetPid (AbsolutePathSandboxEvent et p err (Some sp) (Some dp)) = Inr p
     \<and> GetChildPid (AbsolutePathSandboxEvent et p err (Some sp) (Some dp)) = Inr 0
     \<and> GetError (AbsolutePathSandboxEvent et p err (Some sp) (Some dp)) = Inr err
     \<and> GetRequiredPathResolution (AbsolutePathSandboxEvent et p err (Some sp) (Some dp)) =
         Inr kFullyResolve
     \<and> ((sp = [] \<or> hd sp \<noteq> CHR ''/'') \<and> (dp \<noteq> [] \<and> hd dp \<noteq> CHR ''/'') \<longrightarrow>
          GetSrcFd (AbsolutePathSandboxEvent et p err (Some sp) (Some dp)) = Inr AT_FDCWD
          \<and> GetDstFd (AbsolutePathSandboxEvent et p err (Some sp) (Some dp)) = Inr AT_FDCWD)
     \<and> AT_FDCWD \<noteq> - 1"
  by (auto simp add: AbsolutePathSandboxEvent_def RelativePathSandboxEvent_def
      SandboxEvent_ctor_def IsValid_def GetPathType_def GetSrcFd_def GetDstFd_def
      GetSrcPath_def GetDstPath_def GetEventType_def GetPid_def GetChildPid_def
      GetError_def GetRequiredPathResolution_def AT_FDCWD_def Let_def)

theorem AbsolutePath_relative_redirect_witness:
  "GetPathType (AbsolutePathSandboxEvent 1 7 0 (Some ''rel/file'') (Some [])) = Inr kRelativePaths
   \<and> GetSrcFd (AbsolutePathSandboxEvent 1 7 0 (Some ''rel/file'') (Some [])) = Inr (- 100)
   \<and> GetDstFd (AbsolutePathSandboxEvent 1 7 0 (Some ''rel/file'') (Some [])) = Inr (- 1)
   \<and> GetSrcPath (AbsolutePathSandboxEvent 1 7 0 (Some ''rel/file'') (Some [])) = Inr ''rel/file''
   \<and> GetPathType (AbsolutePathSandboxEvent 1 7 0 (Some ''rel/file'') (Some ''other/rel''))
       = Inr kRelativePaths
   \<and> GetSrcFd (AbsolutePathSandboxEvent 1 7 0 (Some ''rel/file'') (Some ''other/rel''))
       = Inr (- 100)
   \<and> GetDstFd (AbsolutePathSandboxEvent 1 7 0 (Some ''rel/file'') (Some ''other/rel''))
       = Inr (- 100)
   \<and> GetDstPath (AbsolutePathSandboxEvent 1 7 0 (Some ''rel/file'') (Some ''other/rel''))
       = Inr ''other/rel''
   \<and> GetPathType (AbsolutePathSandboxEvent 1 7 0 (Some ''/abs'') (Some ''rel'')) = Inr kRelativePaths
   \<and> GetSrcFd (AbsolutePathSandboxEvent 1 7 0 (Some ''/abs'') (Some ''rel'')) = Inr (- 1)
   \<and> GetDstFd (AbsolutePathSandboxEvent 1 7 0 (Some ''/abs'') (Some ''rel'')) = Inr (- 100)
   \<and> GetPathType (AbsolutePathSandboxEvent 1 7 0 (Some []) (Some [])) = Inr kRelativePaths
   \<and> GetSrcFd (AbsolutePathSandboxEvent 1 7 0 (Some []) (Some [])) = Inr (- 100)
   \<and> GetDstFd (AbsolutePathSandboxEvent 1 7 0 (Some []) (Some [])) = Inr (- 1)"
  using AbsolutePath_relative_redirect [of "''rel/file''" "[]" 1 7 0]
    AbsolutePath_relative_redirect [of "''rel/file''" "''other/rel''" 1 7 0]
    AbsolutePath_relative_redirect [of "''/abs''" "''rel''" 1 7 0]
    AbsolutePath_relative_redirect [of "[]" "[]" 1 7 0]
  by (simp add: AT_FDCWD_def RelativePathSandboxEvent_def SandboxEvent_ctor_def
      GetPathType_def GetSrcFd_def GetDstFd_def GetSrcPath_def GetDstPath_def)

text \<open>
  C5. With a source that begins with \<open>/\<close> and an empty, non-null destination,
  \<open>AbsolutePathSandboxEvent\<close> does not redirect: it returns the event of the
  nine-argument constructor with path kind \<open>kAbsolutePaths\<close>, which is valid, carries
  the source path and has an empty destination path.
\<close>

theorem AbsolutePath_empty_destination:
  "sp \<noteq> [] \<Longrightarrow> hd sp = CHR ''/'' \<Longrightarrow>
     AbsolutePathSandboxEvent et p err (Some sp) (Some []) =
       SandboxEvent_ctor et sp [] (- 1) (- 1) p 0 err kAbsolutePaths
     \<and> IsValid (AbsolutePathSandboxEvent et p err (Some sp) (Some [])) = 1
     \<and> GetPathType (AbsolutePathSandboxEvent et p err (Some sp) (Some [])) = Inr kAbsolutePaths
     \<and> GetSrcPath (AbsolutePathSandboxEvent et p err (Some sp) (Some [])) = Inr sp
     \<and> GetDstPath (AbsolutePathSandboxEvent et p err (Some sp) (Some [])) = Inr []"
  by (simp add: AbsolutePathSandboxEvent_def SandboxEvent_ctor_def IsValid_def
      GetPathType_def GetSrcPath_def GetDstPath_def)

theorem AbsolutePath_empty_destination_witness:
  "GetPathType (AbsolutePathSandboxEvent 1 7 0 (Some ''/tmp/a'') (Some [])) = Inr kAbsolutePaths
   \<and> GetDstPath (AbsolutePathSandboxEvent 1 7 0 (Some ''/tmp/a'') (Some [])) = Inr []
   \<and> IsValid (AbsolutePathSandboxEvent 1 7 0 (Some ''/tmp/a'') (Some [])) = 1"
  using AbsolutePath_empty_destination [of "''/tmp/a''" 1 7 0]
  by (simp add: SandboxEvent_ctor_def GetPathType_def GetDstPath_def GetSrcPath_def IsValid_def)

text \<open>
  C7. When the source pointer or the destination pointer is null, both
  \<open>AbsolutePathSandboxEvent\<close> and \<open>RelativePathSandboxEvent\<close> return the invalid
  sentinel, on which \<open>IsValid\<close> returns 0 (false).
\<close>

theorem null_path_yields_Invalid:
  "src = None \<or> dst = None \<Longrightarrow>
     AbsolutePathSandboxEvent et p err src dst = Invalid
     \<and> RelativePathSandboxEvent et p err src sfd dst dfd = Invalid
     \<and> IsValid Invalid = 0 \<and> \<not> is_valid Invalid"
  by (auto simp add: AbsolutePathSandboxEvent_def RelativePathSandboxEvent_def
      IsValid_def Invalid_def split: option.splits)

theorem null_path_yields_Invalid_witness:
  "IsValid (AbsolutePathSandboxEvent 1 7 0 (Some ''/tmp/a'') None) = 0
   \<and> IsValid (RelativePathSandboxEvent 1 7 0 None 3 (Some ''b'') 4) = 0"
  using null_path_yields_Invalid [of "Some ''/tmp/a''" None 1 7 0]
    null_path_yields_Invalid [of None "Some ''b''" 1 7 0 3 4]
  by simp

text \<open>
  C8. After \<open>Seal\<close>, each of \<open>SetMode\<close>, \<open>SetRequiredPathResolution\<close> and
  \<open>SetResolvedPaths\<close> is rejected by a failed assertion and returns no event, so no
  field is written: the not-sealed assertion fails when the event is valid, and on
  the invalid sentinel the validity assertion, which comes first, already fails.
  Sealing again changes nothing.
\<close>

theorem sealed_event_rejects_setters:
  "SetMode (Seal e) m = Inl (if is_valid e then Assert_not_is_sealed else Assert_is_valid)
   \<and> SetRequiredPathResolution (Seal e) r =
       Inl (if is_valid e then Assert_not_is_sealed else Assert_is_valid)
   \<and> SetResolvedPaths (Seal e) sp dp =
       Inl (if is_valid e then Assert_not_is_sealed else Assert_is_valid)
   \<and> Seal (Seal e) = Seal e"
  by (simp add: SetMode_def SetRequiredPathResolution_def SetResolvedPaths_def Seal_def)

theorem sealed_event_rejects_setters_witness:
  "SetMode (Seal (AbsolutePathSandboxEvent 1 7 0 (Some ''/tmp/a'') (Some []))) 0x4000
     = Inl Assert_not_is_sealed
   \<and> SetRequiredPathResolution (Seal (AbsolutePathSandboxEvent 1 7 0 (Some ''/tmp/a'') (Some [])))
        kResolveNoFollow = Inl Assert_not_is_sealed
   \<and> SetResolvedPaths (Seal (AbsolutePathSandboxEvent 1 7 0 (Some ''/tmp/a'') (Some [])))
        (Ref_other ''/x'') (Ref_other ''/y'') = Inl Assert_not_is_sealed"
  using sealed_event_rejects_setters
    [of "AbsolutePathSandboxEvent 1 7 0 (Some ''/tmp/a'') (Some [])"]
  by (simp add: AbsolutePathSandboxEvent_def SandboxEvent_ctor_def)

text \<open>
  C9. Each of the twelve field accessors fails its validity assertion exactly when the
  event is not valid, so calling one on the invalid sentinel is a contract violation;
  \<open>IsValid\<close> has no assertion and returns 0 exactly on the events that are not valid.
\<close>

theorem accessors_require_validity:
  "(isl (GetPid e) \<longleftrightarrow> \<not> is_valid e)
   \<and> (isl (GetChildPid e) \<longleftrightarrow> \<not> is_valid e)
   \<and> (isl (GetEventType e) \<longleftrightarrow> \<not> is_valid e)
   \<and> (isl (GetMode e) \<longleftrightarrow> \<not> is_valid e)
   \<and> (isl (GetSrcPath e) \<longleftrightarrow> \<not> is_valid e)
   \<and> (isl (GetDstPath e) \<longleftrightarrow> \<not> is_valid e)
   \<and> (isl (GetSrcFd e) \<longleftrightarrow> \<not> is_valid e)
   \<and> (isl (GetDstFd e) \<longleftrightarrow> \<not> is_valid e)
   \<and> (isl (GetError e) \<longleftrightarrow> \<not> is_valid e)
   \<and> (isl (GetPathType e) \<longleftrightarrow> \<not> is_valid e)
   \<and> (isl (GetRequiredPathResolution e) \<longleftrightarrow> \<not> is_valid e)
   \<and> (isl (IsDirectory e) \<longleftrightarrow> \<not> is_valid e)
   \<and> (IsValid e = 0 \<longleftrightarrow> \<not> is_valid e)"
  by (simp add: GetPid_def GetChildPid_def GetEventType_def GetMode_def GetSrcPath_def
      GetDstPath_def GetSrcFd_def GetDstFd_def GetError_def GetPathType_def
      GetRequiredPathResolution_def IsDirectory_def IsValid_def)

theorem accessors_require_validity_witness:
  "GetPid Invalid = Inl Assert_is_valid \<and> GetSrcPath Invalid = Inl Assert_is_valid
   \<and> IsDirectory Invalid = Inl Assert_is_valid \<and> IsValid Invalid = 0
   \<and> GetPid (FileDescriptorSandboxEvent 1 7 0 3 (- 1)) = Inr 7"
  using accessors_require_validity [of Invalid]
    accessors_require_validity [of "FileDescriptorSandboxEvent 1 7 0 3 (- 1)"]
  by (simp add: GetPid_def GetSrcPath_def IsDirectory_def IsValid_def Invalid_def
      FileDescriptorSandboxEvent_def SandboxEvent_ctor_def)

text \<open>
  C10. When \<open>AbsolutePathSandboxEvent\<close> classifies exactly one of its two non-null
  paths as relative, the event has path kind \<open>kRelativePaths\<close>, the root handle of the
  relative path is \<open>AT_FDCWD\<close> and the root handle of the other path is \<open>-1\<close>, which
  differs from \<open>AT_FDCWD\<close>.
\<close>

theorem AbsolutePath_mixed_root_handles:
  "(sp = [] \<or> hd sp \<noteq> CHR ''/'') \<noteq> (dp \<noteq> [] \<and> hd dp \<noteq> CHR ''/'') \<Longrightarrow>
     GetPathType (AbsolutePathSandboxEvent et p err (Some sp) (Some dp)) = Inr kRelativePaths
     \<and> GetSrcFd (AbsolutePathSandboxEvent et p err (Some sp) (Some dp)) =
         Inr (if sp = [] \<or> hd sp \<noteq> CHR ''/'' then AT_FDCWD else - 1)
     \<and> GetDstFd (AbsolutePathSandboxEvent et p err (Some sp) (Some dp)) =
         Inr (if dp \<noteq> [] \<and> hd dp \<noteq> CHR ''/'' then AT_FDCWD else - 1)
     \<and> AT_FDCWD \<noteq> - 1"
  by (auto simp add: AbsolutePathSandboxEvent_def RelativePathSandboxEvent_def
      SandboxEvent_ctor_def GetPathType_def GetSrcFd_def GetDstFd_def AT_FDCWD_def Let_def)

theorem AbsolutePath_mixed_root_handles_witness:
  "GetPathType (AbsolutePathSandboxEvent 1 7 0 (Some ''rel/file'') (Some ''/abs'')) = Inr kRelativePaths
   \<and> GetSrcFd (AbsolutePathSandboxEvent 1 7 0 (Some ''rel/file'') (Some ''/abs'')) = Inr (- 100)
   \<and> GetDstFd (AbsolutePathSandboxEvent 1 7 0 (Some ''rel/file'') (Some ''/abs'')) = Inr (- 1)
   \<and> GetSrcFd (AbsolutePathSandboxEvent 1 7 0 (Some ''/abs'') (Some ''rel'')) = Inr (- 1)
   \<and> GetDstFd (AbsolutePathSandboxEvent 1 7 0 (Some ''/abs'') (Some ''rel'')) = Inr (- 100)"
  using AbsolutePath_mixed_root_handles [of "''rel/file''" "''/abs''" 1 7 0]
    AbsolutePath_mixed_root_handles [of "''/abs''" "''rel''" 1 7 0]
  by (simp add: AT_FDCWD_def)

section \<open>Properties of the access handler\<close>

subsection \<open>The cache only grows\<close>

lemma CheckAndReportInternal_cached:
  "cache s (operation, IgnoreDataPartitionPrefix path) = Some (d, r) \<Longrightarrow>
     CheckAndReportInternal env s operation path checker msg isDir = (d, s)"
  by (simp add: CheckAndReportInternal_def)

lemma CheckAndReportInternal_uncached:
  "cache s (operation, IgnoreDataPartitionPrefix path) = None \<Longrightarrow>
     CheckAndReportInternal env s operation path checker msg isDir =
       (checker operation (PolicyForPath env (IgnoreDataPartitionPrefix path)) isDir,
        s\<lparr>cache := (cache s)((operation, IgnoreDataPartitionPrefix path) \<mapsto>
              (checker operation (PolicyForPath env (IgnoreDataPartitionPrefix path)) isDir,
               ReportFileOpAccess env operation
                 (PolicyForPath env (IgnoreDataPartitionPrefix path))
                 (checker operation (PolicyForPath env (IgnoreDataPartitionPrefix path)) isDir)
                 (message_pid env msg))),
          effects := effects s @
            [PolicyLookup (IgnoreDataPartitionPrefix path),
             ReportEmitted operation (PolicyForPath env (IgnoreDataPartitionPrefix path))
               (checker operation (PolicyForPath env (IgnoreDataPartitionPrefix path)) isDir)
               (message_pid env msg)]\<rparr>)"
  by (simp add: CheckAndReportInternal_def Let_def)

lemma CheckAndReportInternal_keeps_entry:
  "cache s k = Some v \<Longrightarrow>
     cache (snd (CheckAndReportInternal env s operation path checker msg isDir)) k = Some v"
  by (cases "cache s (operation, IgnoreDataPartitionPrefix path)")
     (auto simp add: CheckAndReportInternal_def Let_def)

lemma CheckAndReportInternal_caches_decision:
  "\<exists>r. cache (snd (CheckAndReportInternal env s operation path checker msg isDir))
          (operation, IgnoreDataPartitionPrefix path)
        = Some (fst (CheckAndReportInternal env s operation path checker msg isDir), r)"
  by (cases "cache s (operation, IgnoreDataPartitionPrefix path)")
     (auto simp add: CheckAndReportInternal_def Let_def)

lemma run_calls_keeps_entry:
  "cache s k = Some v \<Longrightarrow> cache (snd (run_calls env s cs)) k = Some v"
proof (induction cs arbitrary: s)
  case Nil
  then show ?case by simp
next
  case (Cons c cs)
  obtain operation path checker msg isDir where c: "c = (operation, path, checker, msg, isDir)"
    by (cases c) auto
  let ?s' = "snd (CheckAndReportInternal env s operation path checker msg isDir)"
  have "cache ?s' k = Some v"
    using Cons.prems by (rule CheckAndReportInternal_keeps_entry)
  then have "cache (snd (run_calls env ?s' cs)) k = Some v"
    by (rule Cons.IH)
  then show ?case
    by (simp add: c split_beta Let_def)
qed

subsection \<open>De-duplication\<close>

text \<open>
  C1. Take a call of \<open>CheckAndReportInternal\<close> on a pip, then any sequence of further
  calls on that pip, then a call with the same operation and the same canonical path
  as the first. The later call returns the decision of the first and leaves the state
  of the pip as it was: no policy lookup and no report. The first call itself, when
  its key is not cached yet, performs exactly one policy lookup and one report
  emission and returns what its checker decides; when the key is cached already, it
  returns the cached decision and changes nothing.
\<close>

theorem CheckAndReport_deduplicates:
  assumes key: "IgnoreDataPartitionPrefix path2 = IgnoreDataPartitionPrefix path1"
  shows "let (d1, s1) = CheckAndReportInternal env s operation path1 checker1 msg1 isDir1;
             s2 = snd (run_calls env s1 cs)
         in CheckAndReportInternal env s2 operation path2 checker2 msg2 isDir2 = (d1, s2)
            \<and> (case cache s (operation, IgnoreDataPartitionPrefix path1) of
                  Some (d, r) \<Rightarrow> d1 = d \<and> s1 = s
                | None \<Rightarrow>
                    d1 = checker1 operation
                           (PolicyForPath env (IgnoreDataPartitionPrefix path1)) isDir1
                    \<and> effects s1 = effects s @
                        [PolicyLookup (IgnoreDataPartitionPrefix path1),
                         ReportEmitted operation
                           (PolicyForPath env (IgnoreDataPartitionPrefix path1)) d1
                           (message_pid env msg1)])"
proof -
  let ?r1 = "CheckAndReportInternal env s operation path1 checker1 msg1 isDir1"
  let ?s2 = "snd (run_calls env (snd ?r1) cs)"
  obtain r where "cache (snd ?r1) (operation, IgnoreDataPartitionPrefix path1) = Some (fst ?r1, r)"
    using CheckAndReportInternal_caches_decision [of env s operation path1 checker1 msg1 isDir1]
    by (elim exE)
  then have "cache ?s2 (operation, IgnoreDataPartitionPrefix path2) = Some (fst ?r1, r)"
    unfolding key by (rule run_calls_keeps_entry)
  then have later: "CheckAndReportInternal env ?s2 operation path2 checker2 msg2 isDir2
                      = (fst ?r1, ?s2)"
    by (rule CheckAndReportInternal_cached)
  have first: "case cache s (operation, IgnoreDataPartitionPrefix path1) of
                  Some (d, r) \<Rightarrow> fst ?r1 = d \<and> snd ?r1 = s
                | None \<Rightarrow>
                    fst ?r1 = checker1 operation
                           (PolicyForPath env (IgnoreDataPartitionPrefix path1)) isDir1
                    \<and> effects (snd ?r1) = effects s @
                        [PolicyLookup (IgnoreDataPartitionPrefix path1),
                         ReportEmitted operation
                           (PolicyForPath env (IgnoreDataPartitionPrefix path1)) (fst ?r1)
                           (message_pid env msg1)]"
    by (cases "cache s (operation, IgnoreDataPartitionPrefix path1)")
       (auto simp add: CheckAndReportInternal_cached CheckAndReportInternal_uncached)
  from later first show ?thesis
    by (simp add: split_beta Let_def)
qed

theorem CheckAndReport_deduplicates_witness:
  "IgnoreDataPartitionPrefix ''/tmp/a'' = IgnoreDataPartitionPrefix ''/System/Volumes/Data/tmp/a''
   \<and> (let env = \<lparr>PolicyForPath = length,
                   ReportFileOpAccess = (\<lambda>(operation :: nat) (policy :: nat) (d :: bool) p.
                     if d then kSkipped else kReported),
                   message_pid = (\<lambda>m :: pid_t. m)\<rparr>;
            s = \<lparr>cache = Map.empty, effects = []\<rparr>;
            (d1, s1) = CheckAndReportInternal env s 1 ''/System/Volumes/Data/tmp/a''
                         (\<lambda>operation policy isDir. policy < 3) 5 False;
            s2 = snd (run_calls env s1 [(2, ''/tmp/b'', \<lambda>operation policy isDir. isDir, 5, True)])
        in \<not> d1
           \<and> effects s1 = [PolicyLookup ''/tmp/a'', ReportEmitted 1 6 False 5]
           \<and> effects s2 = effects s1 @ [PolicyLookup ''/tmp/b'', ReportEmitted 2 6 True 5]
           \<and> CheckAndReportInternal env s2 1 ''/tmp/a''
                (\<lambda>operation policy isDir. True) 9 True = (False, s2))"
proof -
  have key: "IgnoreDataPartitionPrefix ''/tmp/a''
               = IgnoreDataPartitionPrefix ''/System/Volumes/Data/tmp/a''"
    by (simp add: IgnoreDataPartitionPrefix_def kDataPartitionPrefix_def
        kAdjustedPrefixLength_def)
  show ?thesis
    using key CheckAndReport_deduplicates [OF key,
        of "\<lparr>PolicyForPath = length,
             ReportFileOpAccess = (\<lambda>(operation :: nat) (policy :: nat) (d :: bool) p.
               if d then kSkipped else kReported),
             message_pid = (\<lambda>m :: pid_t. m)\<rparr>"
           "\<lparr>cache = Map.empty, effects = []\<rparr>" 1
           "\<lambda>operation policy isDir. policy < 3" 5 False
           "[(2, ''/tmp/b'', \<lambda>operation policy isDir. isDir, 5, True)]"
           "\<lambda>operation policy isDir. True" 9 True]
    by (simp add: CheckAndReportInternal_def IgnoreDataPartitionPrefix_def
        kDataPartitionPrefix_def kAdjustedPrefixLength_def Let_def)
qed

subsection \<open>The data-partition prefix\<close>

lemma prefix_strip:
  "p \<noteq> [] \<Longrightarrow> hd p = CHR ''/'' \<Longrightarrow>
     IgnoreDataPartitionPrefix (''/System/Volumes/Data'' @ p) = p"
  by (cases p) (simp_all add: IgnoreDataPartitionPrefix_def kDataPartitionPrefix_def
      kAdjustedPrefixLength_def)

text \<open>
  C6. Let \<open>p\<close> be an absolute path that does not begin with the data-partition prefix
  (the weaker condition that it does not begin with \<open>kDataPartitionPrefix\<close> is
  enough). Then \<open>p\<close> and \<open>p\<close> behind \<open>/System/Volumes/Data\<close> have the same canonical
  form, hence the same cache key for every operation and the same policy, and
  \<open>CheckAndReportInternal\<close> behaves the same on both.
\<close>

theorem data_partition_prefix_same_key:
  "p \<noteq> [] \<Longrightarrow> hd p = CHR ''/'' \<Longrightarrow> \<not> prefix kDataPartitionPrefix p \<Longrightarrow>
     IgnoreDataPartitionPrefix (''/System/Volumes/Data'' @ p) = IgnoreDataPartitionPrefix p
     \<and> PolicyForPath env (IgnoreDataPartitionPrefix (''/System/Volumes/Data'' @ p)) =
         PolicyForPath env (IgnoreDataPartitionPrefix p)
     \<and> CheckAndReportInternal env s operation (''/System/Volumes/Data'' @ p) checker msg isDir =
         CheckAndReportInternal env s operation p checker msg isDir"
  using prefix_strip [of p]
  by (simp add: IgnoreDataPartitionPrefix_def CheckAndReportInternal_def)

theorem data_partition_prefix_same_key_witness:
  "''/tmp/a'' \<noteq> [] \<and> hd ''/tmp/a'' = CHR ''/'' \<and> \<not> prefix kDataPartitionPrefix ''/tmp/a''
   \<and> IgnoreDataPartitionPrefix ''/System/Volumes/Data/tmp/a'' = ''/tmp/a''
   \<and> IgnoreDataPartitionPrefix ''/tmp/a'' = ''/tmp/a''"
proof -
  have h: "''/tmp/a'' \<noteq> []" "hd ''/tmp/a'' = CHR ''/''"
    "\<not> prefix kDataPartitionPrefix ''/tmp/a''"
    by (simp_all add: kDataPartitionPrefix_def)
  have unprefixed: "IgnoreDataPartitionPrefix ''/tmp/a'' = ''/tmp/a''"
    using h(3) by (simp add: IgnoreDataPartitionPrefix_def)
  have "IgnoreDataPartitionPrefix (''/System/Volumes/Data'' @ ''/tmp/a'')
          = IgnoreDataPartitionPrefix ''/tmp/a''"
    using data_partition_prefix_same_key [OF h] by (rule conjunct1)
  with h unprefixed show ?thesis by simp
qed

end
